theory Spec2Isabelle
  imports Complex_Main
begin

section \<open>Data model (settings.py)\<close>

text \<open>
  The exceptions of the Python runtime that the modelled functions can raise:
  \<open>round(None)\<close> and \<open>want > None\<close> raise TypeError, \<open>range\<close> with a zero step
  and \<open>time.sleep\<close> with a negative duration raise ValueError, \<open>del d[k]\<close> and
  \<open>d[k]\<close> on a missing key raise KeyError.
\<close>

datatype error = TypeError | ValueError | KeyError

text \<open>
  \<open>ServoPosition\<close>: the dataclass fields \<open>min\<close>, \<open>max\<close>, \<open>step\<close> (declared
  \<open>int\<close>) and \<open>sleep\<close> (declared \<open>float\<close>). The first two are suffixed because
  \<open>min\<close> and \<open>max\<close> are constants of HOL.
\<close>

record ServoPosition =
  min_pos :: int
  max_pos :: int
  step :: int
  sleep :: real

text \<open>
  \<open>Position\<close> has the fields \<open>pan\<close> and \<open>tilt\<close>, \<open>Location\<close> has them too, and
  \<open>control.py\<close> defines functions of these names; the record fields are therefore
  prefixed.
\<close>

record Position =
  pos_pan :: ServoPosition
  pos_tilt :: ServoPosition

record Location =
  loc_pan :: int
  loc_tilt :: int

record State =
  position :: Position
  locations :: "string \<rightharpoonup> Location"

section \<open>The servo objects and the process state (control.py, settings.py, mqtt.py)\<close>

text \<open>
  A servo object of the driver library, as far as the program uses it: the attribute
  \<open>angle\<close> is a float, or \<open>None\<close> after power-off, and \<open>actuation_range\<close> is set at
  start-up. The handle is taken to store the angle it is given and to read it back
  unchanged.
\<close>

record Servo =
  angle :: "real option"
  actuation_range :: int

datatype axis = Pan | Tilt

text \<open>
  The module-level objects of the process: \<open>settings.state\<close>, the two servo objects of
  \<open>control.py\<close>, the state file written by \<open>save_state\<close>, and the event
  \<open>ha_reregister_event\<close> of \<open>mqtt.py\<close>. The field \<open>emitted\<close> records every
  assignment to a servo's \<open>angle\<close>, in program order.
\<close>

record Process =
  state :: State
  servo_pan :: Servo
  servo_tilt :: Servo
  emitted :: "(axis \<times> int) list"
  state_file :: "State option"
  ha_reregister_event :: bool

type_synonym 'a result = "(error + 'a) \<times> Process"

definition servo_of :: "axis \<Rightarrow> Process \<Rightarrow> Servo" where
  "servo_of ax p = (case ax of Pan \<Rightarrow> servo_pan p | Tilt \<Rightarrow> servo_tilt p)"

text \<open>The assignment \<open>servo.angle = i\<close> on the servo object of the given axis.\<close>

definition set_angle :: "axis \<Rightarrow> int \<Rightarrow> Process \<Rightarrow> Process" where
  "set_angle ax i p =
     (case ax of
        Pan \<Rightarrow> p\<lparr>servo_pan := (servo_pan p)\<lparr>angle := Some (of_int i)\<rparr>,
                 emitted := emitted p @ [(Pan, i)]\<rparr>
      | Tilt \<Rightarrow> p\<lparr>servo_tilt := (servo_tilt p)\<lparr>angle := Some (of_int i)\<rparr>,
                  emitted := emitted p @ [(Tilt, i)]\<rparr>)"

section \<open>Python built-ins used by control.py\<close>

text \<open>Python 3 \<open>round\<close> of a float: to the nearest integer, a tie to the even one.\<close>

definition py_round :: "real \<Rightarrow> int" where
  "py_round x =
     (let f = \<lfloor>x\<rfloor>; d = x - of_int f
      in if d < 1 / 2 then f
         else if 1 / 2 < d then f + 1
         else if even f then f else f + 1)"

text \<open>
  The elements of \<open>range(start, stop, st)\<close> for a non-zero step; \<open>range\<close> itself
  raises ValueError on a zero step, before the loop starts.
\<close>

function py_range :: "int \<Rightarrow> int \<Rightarrow> int \<Rightarrow> int list" where
  "py_range start stop st =
     (if (0 < st \<and> start < stop) \<or> (st < 0 \<and> stop < start)
      then start # py_range (start + st) stop st
      else [])"
  by pat_completeness auto
termination
  by (relation "measure (\<lambda>(start, stop, st). nat (if 0 < st then stop - start else start - stop))")
     auto

declare py_range.simps [simp del]

definition range3 :: "int \<Rightarrow> int \<Rightarrow> int \<Rightarrow> error + int list" where
  "range3 start stop st = (if st = 0 then Inl ValueError else Inr (py_range start stop st))"

section \<open>Motion (control.py)\<close>

definition get_angle_as_int :: "Servo \<Rightarrow> error + int" where
  "get_angle_as_int sv = (case angle sv of None \<Rightarrow> Inl TypeError | Some a \<Rightarrow> Inr (py_round a))"

definition clamp :: "int \<Rightarrow> int \<Rightarrow> int \<Rightarrow> int" where
  "clamp val min_val max_val = max min_val (min val max_val)"

text \<open>
  The body of the \<open>for\<close> loop of \<open>move_servo\<close>, over the elements of the range:
  assign the angle, then \<open>time.sleep(sleep)\<close>, which raises on a negative duration.
\<close>

fun step_loop :: "axis \<Rightarrow> real \<Rightarrow> int list \<Rightarrow> Process \<Rightarrow> unit result" where
  "step_loop ax sl [] p = (Inr (), p)"
| "step_loop ax sl (i # rest) p =
     (let p' = set_angle ax i p
      in if sl < 0 then (Inl ValueError, p') else step_loop ax sl rest p')"

definition move_servo :: "axis \<Rightarrow> int \<Rightarrow> real \<Rightarrow> int \<Rightarrow> Process \<Rightarrow> unit result" where
  "move_servo ax stp sl want p =
     (case get_angle_as_int (servo_of ax p) of
        Inl e \<Rightarrow> (Inl e, p)
      | Inr current \<Rightarrow>
          (case angle (servo_of ax p) of
             None \<Rightarrow> (Inl TypeError, p)
           | Some a \<Rightarrow>
               (let direction = (if a < of_int want then 1 else - 1)
                in case range3 (max 0 current) (want + direction) (stp * direction) of
                     Inl e \<Rightarrow> (Inl e, p)
                   | Inr angles \<Rightarrow> step_loop ax sl angles p)))"

definition pan :: "int \<Rightarrow> bool \<Rightarrow> Process \<Rightarrow> int result" where
  "pan i relative p =
     (case get_angle_as_int (servo_pan p) of
        Inl e \<Rightarrow> (Inl e, p)
      | Inr current \<Rightarrow>
          (let want = clamp (i + (if relative then current else 0))
                        (min_pos (pos_pan (position (state p))))
                        (max_pos (pos_pan (position (state p))))
           in case move_servo Pan (step (pos_pan (position (state p))))
                     (sleep (pos_pan (position (state p)))) want p of
                (Inl e, p') \<Rightarrow> (Inl e, p')
              | (Inr _, p') \<Rightarrow> (Inr want, p')))"

definition tilt :: "int \<Rightarrow> bool \<Rightarrow> Process \<Rightarrow> int result" where
  "tilt i relative p =
     (case get_angle_as_int (servo_tilt p) of
        Inl e \<Rightarrow> (Inl e, p)
      | Inr current \<Rightarrow>
          (let want = clamp (i + (if relative then current else 0))
                        (min_pos (pos_tilt (position (state p))))
                        (max_pos (pos_tilt (position (state p))))
           in case move_servo Tilt (step (pos_tilt (position (state p))))
                     (sleep (pos_tilt (position (state p)))) want p of
                (Inl e, p') \<Rightarrow> (Inl e, p')
              | (Inr _, p') \<Rightarrow> (Inr want, p')))"

text \<open>
  \<open>move_location\<close> returns the dictionary \<open>{"status": "not found"}\<close> for an unknown
  name and falls off its end (returning \<open>None\<close>) after the two moves.
\<close>

datatype move_status = Status_not_found | Returned_None

definition move_location :: "string \<Rightarrow> Process \<Rightarrow> move_status result" where
  "move_location name p =
     (case locations (state p) name of
        None \<Rightarrow> (Inr Status_not_found, p)
      | Some loc \<Rightarrow>
          (let want_pan = clamp (loc_pan loc)
                            (min_pos (pos_pan (position (state p))))
                            (max_pos (pos_pan (position (state p))));
               want_tilt = clamp (loc_tilt loc)
                             (min_pos (pos_tilt (position (state p))))
                             (max_pos (pos_tilt (position (state p))))
           in case move_servo Pan (step (pos_pan (position (state p))))
                     (sleep (pos_pan (position (state p)))) want_pan p of
                (Inl e, p1) \<Rightarrow> (Inl e, p1)
              | (Inr _, p1) \<Rightarrow>
                  (case move_servo Tilt (step (pos_tilt (position (state p1))))
                          (sleep (pos_tilt (position (state p1)))) want_tilt p1 of
                     (Inl e, p2) \<Rightarrow> (Inl e, p2)
                   | (Inr _, p2) \<Rightarrow> (Inr Returned_None, p2))))"

definition get_current_tilt_position :: "Process \<Rightarrow> error + int" where
  "get_current_tilt_position p = get_angle_as_int (servo_tilt p)"

definition get_current_pan_position :: "Process \<Rightarrow> error + int" where
  "get_current_pan_position p = get_angle_as_int (servo_pan p)"

text \<open>
  \<open>home_servos\<close>: the subscript \<open>locations["home"]\<close> raises KeyError when the entry is
  missing; it is evaluated only when the servo reports no angle. The function has no
  \<open>return\<close> statement: what \<open>move_location\<close> returns is dropped.
\<close>

definition home_servos :: "Process \<Rightarrow> unit result" where
  "home_servos p =
     (let p1 = p\<lparr>servo_pan := (servo_pan p)
                   \<lparr>actuation_range := max_pos (pos_pan (position (state p)))\<rparr>\<rparr>;
          p2 = p1\<lparr>servo_tilt := (servo_tilt p1)
                   \<lparr>actuation_range := max_pos (pos_tilt (position (state p1)))\<rparr>\<rparr>
      in case (if angle (servo_pan p2) = None
               then (case locations (state p2) ''home'' of
                       None \<Rightarrow> Inl KeyError
                     | Some loc \<Rightarrow> Inr (set_angle Pan (loc_pan loc) p2))
               else Inr p2) of
           Inl e \<Rightarrow> (Inl e, p2)
         | Inr p3 \<Rightarrow>
             (case (if angle (servo_tilt p3) = None
                    then (case locations (state p3) ''home'' of
                            None \<Rightarrow> Inl KeyError
                          | Some loc \<Rightarrow> Inr (set_angle Tilt (loc_tilt loc) p3))
                    else Inr p3) of
                Inl e \<Rightarrow> (Inl e, p3)
              | Inr p4 \<Rightarrow>
                  (case move_location ''home'' p4 of
                     (Inl e, p5) \<Rightarrow> (Inl e, p5)
                   | (Inr _, p5) \<Rightarrow> (Inr (), p5))))"

definition move_down :: "Process \<Rightarrow> int result" where
  "move_down p = tilt 2 True p"

definition move_up :: "Process \<Rightarrow> int result" where
  "move_up p = tilt (- 2) True p"

definition move_left :: "Process \<Rightarrow> int result" where
  "move_left p = pan 2 True p"

definition move_right :: "Process \<Rightarrow> int result" where
  "move_right p = pan (- 2) True p"

section \<open>Persistence (settings.py) and the HTTP handlers (api.py)\<close>

text \<open>
  \<open>save_state\<close> writes the whole state object to the state file;
  \<open>save_state_and_update_ha\<close> then sets the re-registration event.
\<close>

definition save_state :: "Process \<Rightarrow> Process" where
  "save_state p = p\<lparr>state_file := Some (state p)\<rparr>"

definition save_state_and_update_ha :: "Process \<Rightarrow> Process" where
  "save_state_and_update_ha p = (save_state p)\<lparr>ha_reregister_event := True\<rparr>"

datatype api_status = STATUS_GOOD

text \<open>
  \<open>get_pan\<close> and \<open>get_tilt\<close> return a one-entry dictionary whose key is the
  imported function object \<open>pan\<close> or \<open>tilt\<close>; the entry is modelled as a pair.
\<close>

datatype dict_key = Key_pan | Key_tilt

definition get_pan :: "Process \<Rightarrow> error + dict_key \<times> int" where
  "get_pan p =
     (case get_current_tilt_position p of Inl e \<Rightarrow> Inl e | Inr v \<Rightarrow> Inr (Key_pan, v))"

definition get_tilt :: "Process \<Rightarrow> error + dict_key \<times> int" where
  "get_tilt p =
     (case get_current_tilt_position p of Inl e \<Rightarrow> Inl e | Inr v \<Rightarrow> Inr (Key_tilt, v))"

text \<open>The handler ignores what \<open>move_location\<close> returns.\<close>

definition api_move_location :: "string \<Rightarrow> Process \<Rightarrow> api_status result" where
  "api_move_location name p =
     (case move_location name p of
        (Inl e, p') \<Rightarrow> (Inl e, p')
      | (Inr _, p') \<Rightarrow> (Inr STATUS_GOOD, p'))"

definition save_location :: "string \<Rightarrow> Process \<Rightarrow> api_status result" where
  "save_location name p =
     (case get_current_pan_position p of
        Inl e \<Rightarrow> (Inl e, p)
      | Inr cp \<Rightarrow>
          (case get_current_tilt_position p of
             Inl e \<Rightarrow> (Inl e, p)
           | Inr ct \<Rightarrow>
               (Inr STATUS_GOOD,
                save_state_and_update_ha
                  (p\<lparr>state := (state p)\<lparr>locations :=
                        (locations (state p))(name \<mapsto> \<lparr>loc_pan = cp, loc_tilt = ct\<rparr>)\<rparr>\<rparr>))))"

definition delete_location :: "string \<Rightarrow> Process \<Rightarrow> api_status result" where
  "delete_location name p =
     (case locations (state p) name of
        None \<Rightarrow> (Inl KeyError, p)
      | Some _ \<Rightarrow>
          (Inr STATUS_GOOD,
           save_state_and_update_ha
             (p\<lparr>state := (state p)\<lparr>locations := (locations (state p))(name := None)\<rparr>\<rparr>)))"

text \<open>
  Updates of one axis's \<open>ServoPosition\<close> inside the state object, as the attribute
  assignments \<open>get_state().position.pan.max = ...\<close> of the handlers perform them.
\<close>

definition upd_pan :: "(ServoPosition \<Rightarrow> ServoPosition) \<Rightarrow> Process \<Rightarrow> Process" where
  "upd_pan f p =
     p\<lparr>state := (state p)\<lparr>position :=
          (position (state p))\<lparr>pos_pan := f (pos_pan (position (state p)))\<rparr>\<rparr>\<rparr>"

definition upd_tilt :: "(ServoPosition \<Rightarrow> ServoPosition) \<Rightarrow> Process \<Rightarrow> Process" where
  "upd_tilt f p =
     p\<lparr>state := (state p)\<lparr>position :=
          (position (state p))\<lparr>pos_tilt := f (pos_tilt (position (state p)))\<rparr>\<rparr>\<rparr>"

text \<open>
  The request body \<open>Value\<close> is optional for the \<open>min\<close>/\<open>max\<close> handlers
  (\<open>None\<close> when absent). The test \<open>value and value.value\<close> is Python truthiness:
  the body must be present and its number non-zero. The number is taken as an
  \<open>int\<close>, as the dataclass declares the limit fields.
\<close>

definition truthy :: "int option \<Rightarrow> bool" where
  "truthy v = (case v of None \<Rightarrow> False | Some n \<Rightarrow> n \<noteq> 0)"

definition tilt_sleep :: "real \<Rightarrow> Process \<Rightarrow> api_status result" where
  "tilt_sleep v p = (Inr STATUS_GOOD, save_state_and_update_ha (upd_tilt (\<lambda>a. a\<lparr>sleep := v\<rparr>) p))"

definition tilt_step :: "int \<Rightarrow> Process \<Rightarrow> api_status result" where
  "tilt_step v p = (Inr STATUS_GOOD, save_state_and_update_ha (upd_tilt (\<lambda>a. a\<lparr>step := v\<rparr>) p))"

definition tilt_max :: "int option \<Rightarrow> Process \<Rightarrow> api_status result" where
  "tilt_max v p =
     (if truthy v
      then (Inr STATUS_GOOD,
            save_state_and_update_ha (upd_tilt (\<lambda>a. a\<lparr>max_pos := the v\<rparr>) p))
      else (case get_current_tilt_position p of
              Inl e \<Rightarrow> (Inl e, p)
            | Inr c \<Rightarrow> (Inr STATUS_GOOD,
                        save_state_and_update_ha (upd_tilt (\<lambda>a. a\<lparr>max_pos := c\<rparr>) p))))"

definition tilt_min :: "int option \<Rightarrow> Process \<Rightarrow> api_status result" where
  "tilt_min v p =
     (if truthy v
      then (Inr STATUS_GOOD,
            save_state_and_update_ha (upd_tilt (\<lambda>a. a\<lparr>min_pos := the v\<rparr>) p))
      else (case get_current_tilt_position p of
              Inl e \<Rightarrow> (Inl e, p)
            | Inr c \<Rightarrow> (Inr STATUS_GOOD,
                        save_state_and_update_ha (upd_tilt (\<lambda>a. a\<lparr>min_pos := c\<rparr>) p))))"

definition pan_sleep :: "real \<Rightarrow> Process \<Rightarrow> api_status result" where
  "pan_sleep v p = (Inr STATUS_GOOD, save_state_and_update_ha (upd_pan (\<lambda>a. a\<lparr>sleep := v\<rparr>) p))"

definition pan_step :: "int \<Rightarrow> Process \<Rightarrow> api_status result" where
  "pan_step v p = (Inr STATUS_GOOD, save_state_and_update_ha (upd_pan (\<lambda>a. a\<lparr>step := v\<rparr>) p))"

definition pan_max :: "int option \<Rightarrow> Process \<Rightarrow> api_status result" where
  "pan_max v p =
     (if truthy v
      then (Inr STATUS_GOOD,
            save_state_and_update_ha (upd_pan (\<lambda>a. a\<lparr>max_pos := the v\<rparr>) p))
      else (case get_current_pan_position p of
              Inl e \<Rightarrow> (Inl e, p)
            | Inr c \<Rightarrow> (Inr STATUS_GOOD,
                        save_state_and_update_ha (upd_pan (\<lambda>a. a\<lparr>max_pos := c\<rparr>) p))))"

definition pan_min :: "int option \<Rightarrow> Process \<Rightarrow> api_status result" where
  "pan_min v p =
     (if truthy v
      then (Inr STATUS_GOOD,
            save_state_and_update_ha (upd_pan (\<lambda>a. a\<lparr>min_pos := the v\<rparr>) p))
      else (case get_current_pan_position p of
              Inl e \<Rightarrow> (Inl e, p)
            | Inr c \<Rightarrow> (Inr STATUS_GOOD,
                        save_state_and_update_ha (upd_pan (\<lambda>a. a\<lparr>min_pos := c\<rparr>) p))))"

text \<open>
  The initial value of \<open>settings.state\<close>. \<open>DEFAULT_SERVO_STEP\<close> and
  \<open>DEFAULT_SERVO_SLEEP\<close> come from \<open>constants.py\<close>, which is not among the
  sources, and are parameters here.
\<close>

definition state0 :: "int \<Rightarrow> real \<Rightarrow> State" where
  "state0 DEFAULT_SERVO_STEP DEFAULT_SERVO_SLEEP =
     \<lparr>position =
        \<lparr>pos_pan = \<lparr>min_pos = 0, max_pos = 270,
                     step = DEFAULT_SERVO_STEP, sleep = DEFAULT_SERVO_SLEEP\<rparr>,
         pos_tilt = \<lparr>min_pos = 0, max_pos = 135,
                      step = DEFAULT_SERVO_STEP, sleep = DEFAULT_SERVO_SLEEP\<rparr>\<rparr>,
      locations = [''home'' \<mapsto> \<lparr>loc_pan = 60, loc_tilt = 45\<rparr>]\<rparr>"

section \<open>Auxiliary definitions for the statements\<close>

text \<open>
  The angles that the loop of \<open>move_servo\<close> assigns out of the elements of its range:
  all of them, or only the first when \<open>time.sleep\<close> raises after it.
\<close>

definition written :: "real \<Rightarrow> int list \<Rightarrow> int list" where
  "written sl xs = (if sl < 0 then take 1 xs else xs)"

text \<open>
  The process right after the modules are imported: \<open>settings.state\<close> is as
  initialised, nothing was written to a servo or to the state file, the event is
  clear. The angles that the two servos report are parameters; 180 is the driver's
  default actuation range.
\<close>

definition process0 :: "int \<Rightarrow> real \<Rightarrow> real option \<Rightarrow> real option \<Rightarrow> Process" where
  "process0 stp sl a_pan a_tilt =
     \<lparr>state = state0 stp sl,
      servo_pan = \<lparr>angle = a_pan, actuation_range = 180\<rparr>,
      servo_tilt = \<lparr>angle = a_tilt, actuation_range = 180\<rparr>,
      emitted = [],
      state_file = None,
      ha_reregister_event = False\<rparr>"

text \<open>
  The limits of one axis, and the move of one axis (\<open>pan\<close> or \<open>tilt\<close>), so that a
  statement can speak about either axis.
\<close>

definition limits_of :: "axis \<Rightarrow> Process \<Rightarrow> ServoPosition" where
  "limits_of ax p =
     (case ax of Pan \<Rightarrow> pos_pan (position (state p)) | Tilt \<Rightarrow> pos_tilt (position (state p)))"

definition move_axis :: "axis \<Rightarrow> int \<Rightarrow> bool \<Rightarrow> Process \<Rightarrow> int result" where
  "move_axis ax i relative p = (case ax of Pan \<Rightarrow> pan i relative p | Tilt \<Rightarrow> tilt i relative p)"

text \<open>
  The operations that the HTTP and MQTT entry points can invoke on the process, and at
  start-up \<open>home_servos\<close>; \<open>run\<close> gives the process after one of them, whether it
  returned or raised. The read-only handlers change nothing and are left out.
\<close>

datatype operation =
    Op_pan int bool
  | Op_tilt int bool
  | Op_move_location string
  | Op_save_location string
  | Op_delete_location string
  | Op_tilt_sleep real
  | Op_tilt_step int
  | Op_tilt_max "int option"
  | Op_tilt_min "int option"
  | Op_pan_sleep real
  | Op_pan_step int
  | Op_pan_max "int option"
  | Op_pan_min "int option"
  | Op_move_down
  | Op_move_up
  | Op_move_left
  | Op_move_right
  | Op_home_servos

fun run :: "operation \<Rightarrow> Process \<Rightarrow> Process" where
  "run (Op_pan i relative) p = snd (pan i relative p)"
| "run (Op_tilt i relative) p = snd (tilt i relative p)"
| "run (Op_move_location name) p = snd (api_move_location name p)"
| "run (Op_save_location name) p = snd (save_location name p)"
| "run (Op_delete_location name) p = snd (delete_location name p)"
| "run (Op_tilt_sleep v) p = snd (tilt_sleep v p)"
| "run (Op_tilt_step v) p = snd (tilt_step v p)"
| "run (Op_tilt_max v) p = snd (tilt_max v p)"
| "run (Op_tilt_min v) p = snd (tilt_min v p)"
| "run (Op_pan_sleep v) p = snd (pan_sleep v p)"
| "run (Op_pan_step v) p = snd (pan_step v p)"
| "run (Op_pan_max v) p = snd (pan_max v p)"
| "run (Op_pan_min v) p = snd (pan_min v p)"
| "run Op_move_down p = snd (move_down p)"
| "run Op_move_up p = snd (move_up p)"
| "run Op_move_left p = snd (move_left p)"
| "run Op_move_right p = snd (move_right p)"
| "run Op_home_servos p = snd (home_servos p)"

section \<open>Basic facts\<close>

lemma py_round_of_int [simp]: "py_round (of_int n) = n"
  by (simp add: py_round_def)

lemma clamp_bounds: "lo \<le> hi \<Longrightarrow> lo \<le> clamp v lo hi \<and> clamp v lo hi \<le> hi"
  by (simp add: clamp_def)

lemma step_loop_snd: "snd (step_loop ax sl xs p) = fold (set_angle ax) (written sl xs) p"
  by (induction xs arbitrary: p) (simp_all add: written_def Let_def)

lemma step_loop_fst: "fst (step_loop ax sl xs p) = (if sl < 0 \<and> xs \<noteq> [] then Inl ValueError else Inr ())"
  by (induction xs arbitrary: p) (simp_all add: Let_def)

lemma set_angle_state [simp]: "state (set_angle ax i p) = state p"
  "state_file (set_angle ax i p) = state_file p"
  "ha_reregister_event (set_angle ax i p) = ha_reregister_event p"
  "emitted (set_angle ax i p) = emitted p @ [(ax, i)]"
  by (cases ax; simp add: set_angle_def)+

lemma set_angle_servo [simp]:
  "servo_pan (set_angle Pan i p) = (servo_pan p)\<lparr>angle := Some (of_int i)\<rparr>"
  "servo_tilt (set_angle Tilt i p) = (servo_tilt p)\<lparr>angle := Some (of_int i)\<rparr>"
  "servo_tilt (set_angle Pan i p) = servo_tilt p"
  "servo_pan (set_angle Tilt i p) = servo_pan p"
  by (simp_all add: set_angle_def)

lemma fold_set_angle_state [simp]:
  "state (fold (set_angle ax) xs p) = state p"
  "state_file (fold (set_angle ax) xs p) = state_file p"
  "ha_reregister_event (fold (set_angle ax) xs p) = ha_reregister_event p"
  "emitted (fold (set_angle ax) xs p) = emitted p @ map (Pair ax) xs"
  by (induction xs arbitrary: p) simp_all

lemma py_range_bounds:
  "x \<in> set (py_range a b s) \<Longrightarrow> (0 < s \<longrightarrow> a \<le> x \<and> x < b) \<and> (s < 0 \<longrightarrow> b < x \<and> x \<le> a) \<and> s \<noteq> 0"
proof (induction a b s rule: py_range.induct)
  case (1 start stop st)
  show ?case
  proof (cases "(0 < st \<and> start < stop) \<or> (st < 0 \<and> stop < start)")
    case True
    with "1.prems" have "x = start \<or> x \<in> set (py_range (start + st) stop st)"
      by (subst (asm) py_range.simps) auto
    then show ?thesis
    proof
      assume "x = start" with True show ?thesis by auto
    next
      assume "x \<in> set (py_range (start + st) stop st)"
      from "1.IH"[OF True this] show ?thesis by auto
    qed
  next
    case False
    with "1.prems" show ?thesis by (subst (asm) py_range.simps) simp
  qed
qed


lemma py_range_pos: "0 < st \<Longrightarrow> start < stop \<Longrightarrow> py_range start stop st = start # py_range (start + st) stop st"
  by (subst py_range.simps) simp

lemma py_range_neg: "st < 0 \<Longrightarrow> stop < start \<Longrightarrow> py_range start stop st = start # py_range (start + st) stop st"
  by (subst py_range.simps) simp

lemma py_range_pos_Nil: "0 < st \<Longrightarrow> stop \<le> start \<Longrightarrow> py_range start stop st = []"
  by (subst py_range.simps) simp

lemma py_range_neg_Nil: "st < 0 \<Longrightarrow> start \<le> stop \<Longrightarrow> py_range start stop st = []"
  by (subst py_range.simps) simp

lemmas py_range_eval = py_range_pos py_range_neg py_range_pos_Nil py_range_neg_Nil

lemmas eval_defs = process0_def state0_def pan_def tilt_def move_servo_def range3_def
  get_angle_as_int_def servo_of_def clamp_def py_round_def set_angle_def py_range_eval Let_def

lemma move_servo_Some:
  "angle (servo_of ax p) = Some a \<Longrightarrow> stp \<noteq> 0 \<Longrightarrow>
   move_servo ax stp sl want p =
     step_loop ax sl (py_range (max 0 (py_round a)) (want + (if a < of_int want then 1 else - 1))
                        (stp * (if a < of_int want then 1 else - 1))) p"
  by (simp add: move_servo_def get_angle_as_int_def range3_def Let_def)

lemma move_servo_returns:
  assumes "angle (servo_of ax p) = Some a" "stp \<noteq> 0" "0 \<le> sl"
  shows "fst (move_servo ax stp sl want p) = Inr ()"
  using assms by (simp add: move_servo_Some step_loop_fst)

lemma pan_result:
  "pan i relative p = (Inr w, p') \<Longrightarrow>
   \<exists>current. get_angle_as_int (servo_pan p) = Inr current \<and>
     w = clamp (i + (if relative then current else 0))
           (min_pos (pos_pan (position (state p)))) (max_pos (pos_pan (position (state p))))"
  by (auto simp: pan_def Let_def split: sum.splits prod.splits)

lemma tilt_result:
  "tilt i relative p = (Inr w, p') \<Longrightarrow>
   \<exists>current. get_angle_as_int (servo_tilt p) = Inr current \<and>
     w = clamp (i + (if relative then current else 0))
           (min_pos (pos_tilt (position (state p)))) (max_pos (pos_tilt (position (state p))))"
  by (auto simp: tilt_def Let_def split: sum.splits prod.splits)

lemma case_result_ok:
  "fst r = Inr () \<Longrightarrow>
   (case r of (Inl e, p') \<Rightarrow> (Inl e, p') | (Inr _, p') \<Rightarrow> (Inr w, p')) = (Inr w, snd r)"
  by (cases r) (auto split: sum.splits)

lemma pan_returns:
  assumes "angle (servo_pan p) = Some a" "step (pos_pan (position (state p))) \<noteq> 0"
    "0 \<le> sleep (pos_pan (position (state p)))"
  shows "fst (pan i relative p) =
     Inr (clamp (i + (if relative then py_round a else 0))
           (min_pos (pos_pan (position (state p)))) (max_pos (pos_pan (position (state p)))))"
proof -
  let ?want = "clamp (i + (if relative then py_round a else 0))
           (min_pos (pos_pan (position (state p)))) (max_pos (pos_pan (position (state p))))"
  let ?r = "move_servo Pan (step (pos_pan (position (state p))))
              (sleep (pos_pan (position (state p)))) ?want p"
  have "angle (servo_of Pan p) = Some a" using assms(1) by (simp add: servo_of_def)
  from move_servo_returns[OF this assms(2,3)] have "fst ?r = Inr ()" .
  from case_result_ok[OF this, of ?want]
  have "pan i relative p = (Inr ?want, snd ?r)"
    unfolding pan_def get_angle_as_int_def Let_def using assms(1) by simp
  then show ?thesis by simp
qed

lemma tilt_returns:
  assumes "angle (servo_tilt p) = Some a" "step (pos_tilt (position (state p))) \<noteq> 0"
    "0 \<le> sleep (pos_tilt (position (state p)))"
  shows "fst (tilt i relative p) =
     Inr (clamp (i + (if relative then py_round a else 0))
           (min_pos (pos_tilt (position (state p)))) (max_pos (pos_tilt (position (state p)))))"
proof -
  let ?want = "clamp (i + (if relative then py_round a else 0))
           (min_pos (pos_tilt (position (state p)))) (max_pos (pos_tilt (position (state p))))"
  let ?r = "move_servo Tilt (step (pos_tilt (position (state p))))
              (sleep (pos_tilt (position (state p)))) ?want p"
  have "angle (servo_of Tilt p) = Some a" using assms(1) by (simp add: servo_of_def)
  from move_servo_returns[OF this assms(2,3)] have "fst ?r = Inr ()" .
  from case_result_ok[OF this, of ?want]
  have "tilt i relative p = (Inr ?want, snd ?r)"
    unfolding tilt_def get_angle_as_int_def Let_def using assms(1) by simp
  then show ?thesis by simp
qed

section \<open>Clamping of the target\<close>

text \<open>
  Claim C1. For each axis whose configured limits satisfy \<open>min \<le> max\<close>, every value
  that \<open>pan\<close> (respectively \<open>tilt\<close>) returns lies in \<open>[min, max]\<close>; for an absolute
  request with target \<open>t\<close> it is \<open>clamp t min max\<close>. The call does return that value
  whenever the servo reports an angle, the step is non-zero and the delay is not
  negative (otherwise Python raises inside \<open>move_servo\<close>).
\<close>

theorem C1_move_axis_result_within_limits:
  "(min_pos (pos_pan (position (state p))) \<le> max_pos (pos_pan (position (state p))) \<longrightarrow>
      (\<forall>relative w p'. pan t relative p = (Inr w, p') \<longrightarrow>
          min_pos (pos_pan (position (state p))) \<le> w \<and> w \<le> max_pos (pos_pan (position (state p)))
          \<and> (\<not> relative \<longrightarrow> w = clamp t (min_pos (pos_pan (position (state p))))
                                         (max_pos (pos_pan (position (state p))))))
      \<and> (angle (servo_pan p) \<noteq> None \<and> step (pos_pan (position (state p))) \<noteq> 0
           \<and> 0 \<le> sleep (pos_pan (position (state p))) \<longrightarrow>
         fst (pan t False p) = Inr (clamp t (min_pos (pos_pan (position (state p))))
                                       (max_pos (pos_pan (position (state p)))))))
   \<and>
   (min_pos (pos_tilt (position (state p))) \<le> max_pos (pos_tilt (position (state p))) \<longrightarrow>
      (\<forall>relative w p'. tilt t relative p = (Inr w, p') \<longrightarrow>
          min_pos (pos_tilt (position (state p))) \<le> w \<and> w \<le> max_pos (pos_tilt (position (state p)))
          \<and> (\<not> relative \<longrightarrow> w = clamp t (min_pos (pos_tilt (position (state p))))
                                         (max_pos (pos_tilt (position (state p))))))
      \<and> (angle (servo_tilt p) \<noteq> None \<and> step (pos_tilt (position (state p))) \<noteq> 0
           \<and> 0 \<le> sleep (pos_tilt (position (state p))) \<longrightarrow>
         fst (tilt t False p) = Inr (clamp t (min_pos (pos_tilt (position (state p))))
                                        (max_pos (pos_tilt (position (state p)))))))"
proof (intro conjI impI allI)
  fix relative w p'
  assume "min_pos (pos_pan (position (state p))) \<le> max_pos (pos_pan (position (state p)))"
    and "pan t relative p = (Inr w, p')"
  then show "min_pos (pos_pan (position (state p))) \<le> w" "w \<le> max_pos (pos_pan (position (state p)))"
    using clamp_bounds by (auto dest!: pan_result)
next
  fix relative w p'
  assume "pan t relative p = (Inr w, p')" "\<not> relative"
  then show "w = clamp t (min_pos (pos_pan (position (state p)))) (max_pos (pos_pan (position (state p))))"
    by (auto dest!: pan_result)
next
  assume "angle (servo_pan p) \<noteq> None \<and> step (pos_pan (position (state p))) \<noteq> 0
           \<and> 0 \<le> sleep (pos_pan (position (state p)))"
  then show "fst (pan t False p) = Inr (clamp t (min_pos (pos_pan (position (state p))))
                                       (max_pos (pos_pan (position (state p)))))"
    using pan_returns[of p _ t False] by auto
next
  fix relative w p'
  assume "min_pos (pos_tilt (position (state p))) \<le> max_pos (pos_tilt (position (state p)))"
    and "tilt t relative p = (Inr w, p')"
  then show "min_pos (pos_tilt (position (state p))) \<le> w" "w \<le> max_pos (pos_tilt (position (state p)))"
    using clamp_bounds by (auto dest!: tilt_result)
next
  fix relative w p'
  assume "tilt t relative p = (Inr w, p')" "\<not> relative"
  then show "w = clamp t (min_pos (pos_tilt (position (state p)))) (max_pos (pos_tilt (position (state p))))"
    by (auto dest!: tilt_result)
next
  assume "angle (servo_tilt p) \<noteq> None \<and> step (pos_tilt (position (state p))) \<noteq> 0
           \<and> 0 \<le> sleep (pos_tilt (position (state p)))"
  then show "fst (tilt t False p) = Inr (clamp t (min_pos (pos_tilt (position (state p))))
                                       (max_pos (pos_tilt (position (state p)))))"
    using tilt_returns[of p _ t False] by auto
qed


theorem C1_move_axis_result_within_limits_witness:
  "fst (pan 300 False (process0 2 0 (Some 10) (Some 45))) = Inr 270
   \<and> fst (tilt (- 7) False (process0 2 0 (Some 10) (Some 45))) = Inr 0"
  using C1_move_axis_result_within_limits [of "process0 2 0 (Some 10) (Some 45)" 300]
        C1_move_axis_result_within_limits [of "process0 2 0 (Some 10) (Some 45)" "- 7"]
  by (simp add: process0_def state0_def clamp_def)

section \<open>The stepping loop\<close>

lemma set_written: "set (written sl xs) \<subseteq> set xs"
  by (auto simp: written_def dest: in_set_takeD)

lemma move_servo_snd:
  "angle (servo_of ax p) = Some a \<Longrightarrow> stp \<noteq> 0 \<Longrightarrow>
   snd (move_servo ax stp sl want p) =
     fold (set_angle ax)
       (written sl (py_range (max 0 (py_round a)) (want + (if a < of_int want then 1 else - 1))
                      (stp * (if a < of_int want then 1 else - 1)))) p"
  by (simp add: move_servo_Some step_loop_snd)

lemma move_servo_unchanged:
  "angle (servo_of ax p) = None \<or> stp = 0 \<Longrightarrow> snd (move_servo ax stp sl want p) = p"
  by (auto simp: move_servo_def get_angle_as_int_def range3_def split: option.splits)

lemma move_servo_emitted:
  "\<exists>xs. emitted (snd (move_servo ax stp sl want p)) = emitted p @ map (Pair ax) xs \<and>
        (\<forall>x\<in>set xs. \<exists>a. angle (servo_of ax p) = Some a \<and>
            min (max 0 (py_round a)) want \<le> x \<and> x \<le> max (max 0 (py_round a)) want)"
proof (cases "angle (servo_of ax p) = None \<or> stp = 0")
  case True
  then have "snd (move_servo ax stp sl want p) = p" by (rule move_servo_unchanged)
  then have "emitted (snd (move_servo ax stp sl want p)) = emitted p @ map (Pair ax) []" by simp
  then show ?thesis by (intro exI[of _ "[]"]) simp
next
  case False
  then obtain a where a: "angle (servo_of ax p) = Some a" and stp: "stp \<noteq> 0" by auto
  let ?d = "if a < of_int want then 1 else - 1 :: int"
  let ?r = "py_range (max 0 (py_round a)) (want + ?d) (stp * ?d)"
  have em: "emitted (snd (move_servo ax stp sl want p)) = emitted p @ map (Pair ax) (written sl ?r)"
    by (simp add: move_servo_snd[OF a stp])
  have "min (max 0 (py_round a)) want \<le> x \<and> x \<le> max (max 0 (py_round a)) want"
    if "x \<in> set (written sl ?r)" for x
  proof -
    from that set_written have "x \<in> set ?r" by blast
    from py_range_bounds[OF this] show ?thesis
      by (auto split: if_splits simp: zero_less_mult_iff mult_less_0_iff)
  qed
  with em a show ?thesis by (intro exI[of _ "written sl ?r"]) auto
qed


lemma snd_case_result:
  "snd (case r of (Inl e, p') \<Rightarrow> (Inl e, p') | (Inr u, p') \<Rightarrow> (Inr w, p')) = snd r"
  by (cases r) (auto split: sum.splits)

lemma move_axis_snd:
  "snd (move_axis ax i relative p) =
     (case angle (servo_of ax p) of
        None \<Rightarrow> p
      | Some a \<Rightarrow>
          snd (move_servo ax (step (limits_of ax p)) (sleep (limits_of ax p))
                 (clamp (i + (if relative then py_round a else 0))
                    (min_pos (limits_of ax p)) (max_pos (limits_of ax p))) p))"
  by (cases ax)
     (simp_all add: move_axis_def pan_def tilt_def limits_of_def servo_of_def
        get_angle_as_int_def Let_def snd_case_result split: option.splits)

lemmas eval_api = eval_defs pan_max_def pan_min_def tilt_max_def tilt_min_def
  truthy_def upd_pan_def upd_tilt_def save_state_and_update_ha_def save_state_def
  get_current_pan_position_def get_current_tilt_position_def

text \<open>
  Claim C2 says that the last angle written is the clamped target even when the target
  is not a multiple of the step away from the start, and gives the example of pan
  limits 0 and 270, step 2, delay 0, current angle 10 and the absolute target 15, with
  the angles 10, 12, 14, 15. On that input \<open>pan\<close> returns 15, but the loop runs over
  \<open>range(10, 16, 2)\<close> and writes 10, 12, 14 only: the servo is left at 14.
\<close>

theorem C2_stepping_stops_short_of_target:
  "fst (pan 15 False (process0 2 0 (Some 10) (Some 45))) = Inr 15
   \<and> emitted (snd (pan 15 False (process0 2 0 (Some 10) (Some 45))))
       = [(Pan, 10), (Pan, 12), (Pan, 14)]
   \<and> angle (servo_pan (snd (pan 15 False (process0 2 0 (Some 10) (Some 45))))) = Some 14"
  by (simp add: eval_defs)

text \<open>
  Claim C3 says that every angle written during a move lies within the configured
  limits, for every starting angle. With the pan servo at 100 and the pan maximum then
  set to 50, a move to 50 first writes 100 and 75.
\<close>

theorem C3_start_outside_limits_counterexample:
  "max_pos (pos_pan (position (state
       (snd (pan_max (Some 50) (process0 25 0 (Some 100) (Some 45))))))) = 50
   \<and> emitted (snd (pan 50 False (snd (pan_max (Some 50) (process0 25 0 (Some 100) (Some 45))))))
       = [(Pan, 100), (Pan, 75), (Pan, 50)]"
  by (simp add: eval_api)

text \<open>
  Claim C3, amended. If the limits of the axis satisfy \<open>min \<le> max\<close>, then every angle
  that the move writes to the servo of that axis lies between the angle the loop
  starts from, \<open>max(0, current)\<close>, and the clamped target, both included; hence it is
  at least the smaller of \<open>min\<close> and the start and at most the larger of \<open>max\<close> and the
  start, and it lies within \<open>[min, max]\<close> whenever the start does. Nothing is written
  to the other servo.
\<close>

theorem C3_emitted_between_start_and_target:
  assumes "min_pos (limits_of ax p) \<le> max_pos (limits_of ax p)"
  shows "\<exists>xs. emitted (snd (move_axis ax t relative p)) = emitted p @ map (Pair ax) xs \<and>
           (\<forall>x\<in>set xs. \<exists>a. angle (servo_of ax p) = Some a \<and>
              min (max 0 (py_round a))
                  (clamp (t + (if relative then py_round a else 0))
                     (min_pos (limits_of ax p)) (max_pos (limits_of ax p))) \<le> x \<and>
              x \<le> max (max 0 (py_round a))
                      (clamp (t + (if relative then py_round a else 0))
                         (min_pos (limits_of ax p)) (max_pos (limits_of ax p))) \<and>
              min (min_pos (limits_of ax p)) (max 0 (py_round a)) \<le> x \<and>
              x \<le> max (max_pos (limits_of ax p)) (max 0 (py_round a)) \<and>
              (min_pos (limits_of ax p) \<le> max 0 (py_round a) \<and>
               max 0 (py_round a) \<le> max_pos (limits_of ax p) \<longrightarrow>
                 min_pos (limits_of ax p) \<le> x \<and> x \<le> max_pos (limits_of ax p)))"
proof (cases "angle (servo_of ax p)")
  case None
  then have "emitted (snd (move_axis ax t relative p)) = emitted p @ map (Pair ax) []"
    by (simp add: move_axis_snd)
  then show ?thesis by (intro exI[of _ "[]"]) simp
next
  case (Some a)
  let ?L = "limits_of ax p"
  let ?start = "max 0 (py_round a)"
  let ?want = "clamp (t + (if relative then py_round a else 0)) (min_pos ?L) (max_pos ?L)"
  from assms have w: "min_pos ?L \<le> ?want \<and> ?want \<le> max_pos ?L" by (rule clamp_bounds)
  from move_servo_emitted[of ax "step ?L" "sleep ?L" ?want p]
  obtain xs where xs: "emitted (snd (move_servo ax (step ?L) (sleep ?L) ?want p))
        = emitted p @ map (Pair ax) xs"
    and b: "\<forall>x\<in>set xs. \<exists>a. angle (servo_of ax p) = Some a \<and>
            min (max 0 (py_round a)) ?want \<le> x \<and> x \<le> max (max 0 (py_round a)) ?want"
    by blast
  have "min ?start ?want \<le> x \<and> x \<le> max ?start ?want \<and>
        min (min_pos ?L) ?start \<le> x \<and> x \<le> max (max_pos ?L) ?start \<and>
        (min_pos ?L \<le> ?start \<and> ?start \<le> max_pos ?L \<longrightarrow> min_pos ?L \<le> x \<and> x \<le> max_pos ?L)"
    if "x \<in> set xs" for x
  proof -
    from b that Some have "min ?start ?want \<le> x \<and> x \<le> max ?start ?want"
      by auto
    with w show ?thesis by linarith
  qed
  moreover have "emitted (snd (move_axis ax t relative p)) = emitted p @ map (Pair ax) xs"
    using xs Some by (simp add: move_axis_snd)
  ultimately show ?thesis using Some by (intro exI[of _ xs]) simp
qed

theorem C3_emitted_between_start_and_target_witness:
  "(\<exists>xs. emitted (snd (move_axis Pan 300 False (process0 100 0 (Some 10) (Some 45))))
          = map (Pair Pan) xs \<and> (\<forall>x\<in>set xs. 0 \<le> x \<and> x \<le> 270))
   \<and> (\<exists>xs. emitted (snd (move_axis Pan 50 False
                 (snd (pan_max (Some 50) (process0 25 0 (Some 100) (Some 45))))))
          = map (Pair Pan) xs \<and> (\<forall>x\<in>set xs. 50 \<le> x \<and> x \<le> 100))"
proof -
  let ?p = "process0 100 0 (Some 10) (Some 45)"
  have l: "min_pos (limits_of Pan ?p) = 0" "max_pos (limits_of Pan ?p) = 270"
    by (simp_all add: process0_def state0_def limits_of_def)
  have h: "min_pos (limits_of Pan ?p) \<le> max_pos (limits_of Pan ?p)"
    by (simp add: l)
  have a: "angle (servo_of Pan ?p) = Some 10" by (simp add: process0_def servo_of_def)
  have r: "py_round 10 = 10" by (simp add: py_round_def)
  have e: "emitted ?p = []" by (simp add: process0_def)
  from C3_emitted_between_start_and_target [OF h, of 300 False]
  obtain xs where "emitted (snd (move_axis Pan 300 False ?p)) = map (Pair Pan) xs"
    and "\<forall>x\<in>set xs. 0 \<le> x \<and> x \<le> 270"
    by (auto simp: l e a r)
  then have first: "\<exists>xs. emitted (snd (move_axis Pan 300 False ?p)) = map (Pair Pan) xs
      \<and> (\<forall>x\<in>set xs. 0 \<le> x \<and> x \<le> 270)"
    by blast
  let ?q = "snd (pan_max (Some 50) (process0 25 0 (Some 100) (Some 45)))"
  have l': "min_pos (limits_of Pan ?q) = 0" "max_pos (limits_of Pan ?q) = 50"
    by (simp_all add: eval_api limits_of_def)
  have h': "min_pos (limits_of Pan ?q) \<le> max_pos (limits_of Pan ?q)"
    by (simp add: l')
  have a': "angle (servo_of Pan ?q) = Some 100" by (simp add: eval_api)
  have r': "py_round 100 = 100" by (simp add: py_round_def)
  have e': "emitted ?q = []" by (simp add: eval_api)
  from C3_emitted_between_start_and_target [OF h', of 50 False]
  obtain ys where "emitted (snd (move_axis Pan 50 False ?q)) = map (Pair Pan) ys"
    and "\<forall>x\<in>set ys. 50 \<le> x \<and> x \<le> 100"
    by (auto simp: l' e' a' r' clamp_def)
  then have "\<exists>xs. emitted (snd (move_axis Pan 50 False ?q)) = map (Pair Pan) xs
      \<and> (\<forall>x\<in>set xs. 50 \<le> x \<and> x \<le> 100)"
    by blast
  with first show ?thesis by blast
qed

section \<open>Named locations: an unknown name\<close>

text \<open>
  Claim C5. For every name that is not a key of \<open>locations\<close>, \<open>move_location\<close>
  returns the not-found status and leaves the whole process as it was: no angle is
  written to either servo and no state is changed.
\<close>

theorem C5_move_location_missing:
  assumes "name \<notin> dom (locations (state p))"
  shows "move_location name p = (Inr Status_not_found, p)"
  using assms by (simp add: move_location_def domIff)

theorem C5_move_location_missing_witness:
  "move_location ''nonexistent'' (process0 2 0 (Some 10) (Some 45))
     = (Inr Status_not_found, process0 2 0 (Some 10) (Some 45))
   \<and> emitted (snd (move_location ''nonexistent'' (process0 2 0 (Some 10) (Some 45)))) = []"
proof -
  have h: "''nonexistent'' \<notin> dom (locations (state (process0 2 0 (Some 10) (Some 45))))"
    by (simp add: process0_def state0_def)
  have e: "emitted (process0 2 0 (Some 10) (Some 45)) = []" by (simp add: process0_def)
  from C5_move_location_missing [OF h] e show ?thesis by simp
qed

section \<open>Reading the pan angle over HTTP\<close>

text \<open>
  Claim C10. In every state \<open>get_pan\<close> returns the current angle of the tilt servo,
  rounded, under the key \<open>pan\<close>, whatever the pan servo reports: when the tilt servo
  reports the angle \<open>a\<close>, \<open>get_pan\<close> returns \<open>round(a)\<close> and so does \<open>get_tilt\<close>;
  when it reports none, both raise; the values that \<open>get_pan\<close> and \<open>get_tilt\<close>
  return are equal; and replacing the pan servo leaves the result of \<open>get_pan\<close>
  as it was.
\<close>

theorem C10_get_pan_reads_tilt:
  "(\<forall>a. angle (servo_tilt p) = Some a \<longrightarrow>
        get_pan p = Inr (Key_pan, py_round a) \<and> get_tilt p = Inr (Key_tilt, py_round a))
   \<and> (angle (servo_tilt p) = None \<longrightarrow>
        get_pan p = Inl TypeError \<and> get_tilt p = Inl TypeError)
   \<and> get_pan p = map_sum id (Pair Key_pan) (get_current_tilt_position p)
   \<and> map_sum id snd (get_pan p) = map_sum id snd (get_tilt p)
   \<and> get_pan (p\<lparr>servo_pan := sv\<rparr>) = get_pan p"
  by (cases "angle (servo_tilt p)")
     (simp_all add: get_pan_def get_tilt_def get_current_tilt_position_def
        get_angle_as_int_def)

theorem C10_get_pan_reads_tilt_witness:
  "get_pan (process0 2 0 (Some 10) (Some 45)) = Inr (Key_pan, 45)
   \<and> get_tilt (process0 2 0 (Some 10) (Some 45)) = Inr (Key_tilt, 45)
   \<and> get_pan (process0 2 0 (Some 10) None) = Inl TypeError"
proof -
  have a: "angle (servo_tilt (process0 2 0 (Some 10) (Some 45))) = Some 45"
    and n: "angle (servo_tilt (process0 2 0 (Some 10) None)) = None"
    by (simp_all add: process0_def)
  have r: "py_round 45 = 45" by (simp add: py_round_def)
  from C10_get_pan_reads_tilt [of "process0 2 0 (Some 10) (Some 45)"]
       C10_get_pan_reads_tilt [of "process0 2 0 (Some 10) None"] a n r
  show ?thesis by simp
qed

section \<open>The reserved location home\<close>

lemma step_loop_state [simp]: "state (snd (step_loop ax sl xs p)) = state p"
  by (simp add: step_loop_snd)

lemma move_servo_state [simp]: "state (snd (move_servo ax stp sl want p)) = state p"
  by (simp add: move_servo_def get_angle_as_int_def range3_def Let_def
        split: option.splits sum.splits)

lemma move_servo_stateD: "move_servo ax stp sl want p = (r, p') \<Longrightarrow> state p' = state p"
  using move_servo_state[of ax stp sl want p] by simp

lemma move_axis_state: "state (snd (move_axis ax i relative p)) = state p"
  by (simp add: move_axis_snd split: option.splits)

lemma pan_state [simp]: "state (snd (pan i relative p)) = state p"
  using move_axis_state[of Pan] by (simp add: move_axis_def)

lemma tilt_state [simp]: "state (snd (tilt i relative p)) = state p"
  using move_axis_state[of Tilt] by (simp add: move_axis_def)

lemma move_location_snd:
  "snd (move_location name p) =
     (case locations (state p) name of
        None \<Rightarrow> p
      | Some loc \<Rightarrow>
          (let p1 = snd (move_servo Pan (step (pos_pan (position (state p))))
                      (sleep (pos_pan (position (state p))))
                      (clamp (loc_pan loc) (min_pos (pos_pan (position (state p))))
                         (max_pos (pos_pan (position (state p))))) p)
           in if fst (move_servo Pan (step (pos_pan (position (state p))))
                      (sleep (pos_pan (position (state p))))
                      (clamp (loc_pan loc) (min_pos (pos_pan (position (state p))))
                         (max_pos (pos_pan (position (state p))))) p) = Inr ()
              then snd (move_servo Tilt (step (pos_tilt (position (state p))))
                      (sleep (pos_tilt (position (state p))))
                      (clamp (loc_tilt loc) (min_pos (pos_tilt (position (state p))))
                         (max_pos (pos_tilt (position (state p))))) p1)
              else p1))"
  by (auto simp: move_location_def Let_def dest: move_servo_stateD
        split: option.splits prod.splits sum.splits)

lemma move_location_state [simp]: "state (snd (move_location name p)) = state p"
  by (simp add: move_location_snd Let_def split: option.splits)

lemma api_move_location_snd: "snd (api_move_location name p) = snd (move_location name p)"
  by (simp add: api_move_location_def split: prod.splits sum.splits)

lemma home_servos_state [simp]: "state (snd (home_servos p)) = state p"
  by (simp add: home_servos_def Let_def snd_case_result split: option.splits)

lemma upd_locations [simp]:
  "locations (state (save_state_and_update_ha (upd_pan f p))) = locations (state p)"
  "locations (state (save_state_and_update_ha (upd_tilt f p))) = locations (state p)"
  by (simp_all add: save_state_and_update_ha_def save_state_def upd_pan_def upd_tilt_def)

lemma set_limit_locations:
  "locations (state (snd (pan_max v p))) = locations (state p)"
  "locations (state (snd (pan_min v p))) = locations (state p)"
  "locations (state (snd (tilt_max v p))) = locations (state p)"
  "locations (state (snd (tilt_min v p))) = locations (state p)"
  by (simp_all add: pan_max_def pan_min_def tilt_max_def tilt_min_def split: sum.splits)

lemma save_location_dom:
  "dom (locations (state p)) \<subseteq> dom (locations (state (snd (save_location name p))))"
  by (auto simp: save_location_def save_state_and_update_ha_def save_state_def
        split: sum.splits)

lemma delete_location_dom:
  "dom (locations (state (snd (delete_location name p)))) = dom (locations (state p)) - {name}"
  by (auto simp: delete_location_def save_state_and_update_ha_def save_state_def
        split: option.splits if_splits)

text \<open>
  Claim C6 says that every operation, \<open>DeleteLocation("home")\<close> included, keeps the
  entry \<open>home\<close>. \<open>delete_location\<close> removes whatever key it is given: on the initial
  state it returns the good status and \<open>home\<close> is gone.
\<close>

theorem C6_delete_home_counterexample:
  "fst (delete_location ''home'' (process0 2 0 (Some 10) (Some 45))) = Inr STATUS_GOOD
   \<and> locations (state (snd (delete_location ''home'' (process0 2 0 (Some 10) (Some 45))))) ''home''
       = None"
  by (simp add: delete_location_def process0_def state0_def save_state_and_update_ha_def
        save_state_def)

lemma run_keeps_home:
  assumes "op \<noteq> Op_delete_location ''home''" and "''home'' \<in> dom (locations (state p))"
  shows "''home'' \<in> dom (locations (state (run op p)))"
proof (cases op)
  case (Op_save_location name)
  with assms(2) save_location_dom[of p name] show ?thesis by auto
next
  case (Op_delete_location name)
  with assms show ?thesis by (simp add: delete_location_dom)
qed (use assms(2) in \<open>simp_all add: api_move_location_snd set_limit_locations move_down_def
      move_up_def move_left_def move_right_def tilt_sleep_def tilt_step_def pan_sleep_def
      pan_step_def\<close>)

text \<open>
  Claim C6, amended. The entry \<open>home\<close> is present in the initial state, and it is
  still present after any sequence of operations none of which is
  \<open>DeleteLocation("home")\<close>.
\<close>

theorem C6_home_kept_unless_deleted:
  assumes "\<forall>op\<in>set ops. op \<noteq> Op_delete_location ''home''"
  shows "''home'' \<in> dom (locations (state (fold run ops (process0 stp sl a_pan a_tilt))))"
proof -
  have "''home'' \<in> dom (locations (state (fold run ops p)))"
    if "''home'' \<in> dom (locations (state p))" "\<forall>op\<in>set ops. op \<noteq> Op_delete_location ''home''"
    for p
    using that
  proof (induction ops arbitrary: p)
    case Nil
    then show ?case by simp
  next
    case (Cons op ops)
    from Cons.prems have "''home'' \<in> dom (locations (state (run op p)))"
      by (intro run_keeps_home) auto
    with Cons show ?case by simp
  qed
  moreover have "''home'' \<in> dom (locations (state (process0 stp sl a_pan a_tilt)))"
    by (simp add: process0_def state0_def)
  ultimately show ?thesis using assms by blast
qed

theorem C6_home_kept_unless_deleted_witness:
  "''home'' \<in> dom (locations (state (fold run
      [Op_save_location ''desk'', Op_pan_max (Some 50), Op_delete_location ''desk'',
       Op_move_location ''home'', Op_move_left]
      (process0 2 0 (Some 10) (Some 45)))))"
  using C6_home_kept_unless_deleted
    [of "[Op_save_location ''desk'', Op_pan_max (Some 50), Op_delete_location ''desk'',
          Op_move_location ''home'', Op_move_left]" 2 0 "Some 10" "Some 45"]
  by simp

section \<open>Where a move ends\<close>

text \<open>
  When the distance from the starting angle to the target is a multiple of the step,
  the loop of \<open>move_servo\<close> ends on the target.
\<close>

lemma py_range_last_up:
  "0 < s \<Longrightarrow> py_range a (a + s * int k + 1) s \<noteq> [] \<and>
     last (py_range a (a + s * int k + 1) s) = a + s * int k"
proof (induction k arbitrary: a)
  case 0
  then have "py_range a (a + 1) s = [a]"
    by (simp add: py_range_pos py_range_pos_Nil)
  then show ?case by simp
next
  case (Suc k)
  have e: "a + s * int (Suc k) + 1 = (a + s) + s * int k + 1"
    by (simp add: algebra_simps)
  from Suc.prems have "0 \<le> s * int (Suc k)" by simp
  then have "a < a + s * int (Suc k) + 1" by linarith
  with Suc.prems have "py_range a (a + s * int (Suc k) + 1) s
      = a # py_range (a + s) ((a + s) + s * int k + 1) s"
    by (simp only: py_range_pos e)
  with Suc.IH[OF Suc.prems, of "a + s"] show ?case by (simp add: algebra_simps)
qed

lemma py_range_last_down:
  "0 < s \<Longrightarrow> py_range a (a - s * int k - 1) (- s) \<noteq> [] \<and>
     last (py_range a (a - s * int k - 1) (- s)) = a - s * int k"
proof (induction k arbitrary: a)
  case 0
  then have "py_range a (a - 1) (- s) = [a]"
    by (simp add: py_range_neg py_range_neg_Nil)
  then show ?case by simp
next
  case (Suc k)
  have e: "a - s * int (Suc k) - 1 = (a + - s) - s * int k - 1"
    by (simp add: algebra_simps)
  from Suc.prems have "0 \<le> s * int (Suc k)" by simp
  then have "a - s * int (Suc k) - 1 < a" by linarith
  with Suc.prems have "py_range a (a - s * int (Suc k) - 1) (- s)
      = a # py_range (a + - s) ((a + - s) - s * int k - 1) (- s)"
    by (simp only: py_range_neg e neg_less_0_iff_less)
  with Suc.IH[OF Suc.prems, of "a + - s"] show ?case by (simp add: algebra_simps)
qed

lemma fold_set_angle_angle:
  "xs \<noteq> [] \<Longrightarrow> angle (servo_of ax (fold (set_angle ax) xs p)) = Some (of_int (last xs))"
proof (induction xs arbitrary: p)
  case Nil
  then show ?case by simp
next
  case (Cons x xs)
  show ?case
  proof (cases "xs = []")
    case True
    then show ?thesis by (cases ax) (simp_all add: servo_of_def)
  next
    case False
    with Cons.IH[OF False] show ?thesis by simp
  qed
qed

lemma move_servo_reaches:
  assumes a: "angle (servo_of ax p) = Some (of_int c)" and c: "0 \<le> c" and stp: "0 < stp"
    and sl: "0 \<le> sl" and d: "stp dvd want - c"
  shows "fst (move_servo ax stp sl want p) = Inr ()"
    and "angle (servo_of ax (snd (move_servo ax stp sl want p))) = Some (of_int want)"
proof -
  from stp have nz: "stp \<noteq> 0" by simp
  show "fst (move_servo ax stp sl want p) = Inr ()"
    using a nz sl by (rule move_servo_returns)
  from d obtain q where q: "want - c = stp * q" by (auto simp: dvd_def)
  have w: "written sl xs = xs" for xs using sl by (simp add: written_def)
  show "angle (servo_of ax (snd (move_servo ax stp sl want p))) = Some (of_int want)"
  proof (cases "c < want")
    case True
    then have "0 < stp * q" using q by simp
    with stp have "0 < q" by (simp add: zero_less_mult_iff)
    then have "want = c + stp * int (nat q)" using q by simp
    with py_range_last_up[OF stp, of c "nat q"]
    have "py_range c (want + 1) stp \<noteq> [] \<and> last (py_range c (want + 1) stp) = want"
      by simp
    with True c show ?thesis
      by (simp add: move_servo_snd[OF a nz] w fold_set_angle_angle)
  next
    case False
    then have "stp * q \<le> 0" using q by simp
    with stp have "q \<le> 0" by (simp add: mult_le_0_iff)
    then have "want = c - stp * int (nat (- q))" using q by simp
    with py_range_last_down[OF stp, of c "nat (- q)"]
    have "py_range c (want - 1) (- stp) \<noteq> [] \<and> last (py_range c (want - 1) (- stp)) = want"
      by simp
    with False c show ?thesis
      by (simp add: move_servo_snd[OF a nz] w fold_set_angle_angle)
  qed
qed


section \<open>Named locations: saving and moving\<close>

lemma fold_set_angle_other [simp]:
  "servo_tilt (fold (set_angle Pan) xs p) = servo_tilt p"
  "servo_pan (fold (set_angle Tilt) xs p) = servo_pan p"
  by (induction xs arbitrary: p) simp_all

lemma move_servo_other [simp]:
  "servo_tilt (snd (move_servo Pan stp sl want p)) = servo_tilt p"
  "servo_pan (snd (move_servo Tilt stp sl want p)) = servo_pan p"
  by (simp_all add: move_servo_def get_angle_as_int_def range3_def Let_def step_loop_snd
        split: option.splits sum.splits)

lemma save_location_result:
  assumes "save_location x p = (Inr STATUS_GOOD, p1)"
  shows "\<exists>cp ct. get_current_pan_position p = Inr cp \<and> get_current_tilt_position p = Inr ct \<and>
           locations (state p1) x = Some \<lparr>loc_pan = cp, loc_tilt = ct\<rparr>"
  using assms
  by (auto simp: save_location_def save_state_and_update_ha_def save_state_def
        split: sum.splits)

lemma move_location_found:
  assumes "locations (state p) x = Some \<lparr>loc_pan = cp, loc_tilt = ct\<rparr>"
  shows "move_location x p =
       (case move_servo Pan (step (limits_of Pan p)) (sleep (limits_of Pan p))
               (clamp cp (min_pos (limits_of Pan p)) (max_pos (limits_of Pan p))) p of
          (Inl e, q) \<Rightarrow> (Inl e, q)
        | (Inr u, q) \<Rightarrow>
            (case move_servo Tilt (step (limits_of Tilt p)) (sleep (limits_of Tilt p))
                    (clamp ct (min_pos (limits_of Tilt p)) (max_pos (limits_of Tilt p))) q of
               (Inl e, q') \<Rightarrow> (Inl e, q')
             | (Inr u, q') \<Rightarrow> (Inr Returned_None, q')))"
  using assms
  by (auto simp: move_location_def limits_of_def Let_def dest: move_servo_stateD
        split: prod.splits sum.splits)

lemma move_location_emitted:
  "\<exists>xs ys. emitted (snd (move_location x p)) = emitted p @ map (Pair Pan) xs @ map (Pair Tilt) ys"
proof (cases "locations (state p) x")
  case None
  then have "emitted (snd (move_location x p)) = emitted p @ map (Pair Pan) [] @ map (Pair Tilt) []"
    by (simp add: move_location_snd)
  then show ?thesis by blast
next
  case (Some loc)
  let ?m1 = "move_servo Pan (step (pos_pan (position (state p))))
                      (sleep (pos_pan (position (state p))))
                      (clamp (loc_pan loc) (min_pos (pos_pan (position (state p))))
                         (max_pos (pos_pan (position (state p))))) p"
  let ?m2 = "move_servo Tilt (step (pos_tilt (position (state p))))
                      (sleep (pos_tilt (position (state p))))
                      (clamp (loc_tilt loc) (min_pos (pos_tilt (position (state p))))
                         (max_pos (pos_tilt (position (state p))))) (snd ?m1)"
  from move_servo_emitted[of Pan _ _ _ p] obtain xs where
    xs: "emitted (snd ?m1) = emitted p @ map (Pair Pan) xs" by blast
  from move_servo_emitted[of Tilt _ _ _ "snd ?m1"] obtain ys where
    ys: "emitted (snd ?m2) = emitted (snd ?m1) @ map (Pair Tilt) ys" by blast
  show ?thesis
  proof (cases "fst ?m1 = Inr ()")
    case True
    with Some have "snd (move_location x p) = snd ?m2" by (simp add: move_location_snd Let_def)
    with xs ys have "emitted (snd (move_location x p))
        = emitted p @ map (Pair Pan) xs @ map (Pair Tilt) ys" by simp
    then show ?thesis by blast
  next
    case False
    with Some have "snd (move_location x p) = snd ?m1" by (simp add: move_location_snd Let_def)
    with xs have "emitted (snd (move_location x p))
        = emitted p @ map (Pair Pan) xs @ map (Pair Tilt) []" by simp
    then show ?thesis by blast
  qed
qed

lemma move_location_arrives:
  assumes loc: "locations (state p) x = Some \<lparr>loc_pan = cp, loc_tilt = ct\<rparr>"
    and pa: "angle (servo_pan p) = Some (of_int c1)" "0 \<le> c1"
    and ps: "0 < step (limits_of Pan p)" "0 \<le> sleep (limits_of Pan p)"
      "step (limits_of Pan p) dvd
         clamp cp (min_pos (limits_of Pan p)) (max_pos (limits_of Pan p)) - c1"
    and ta: "angle (servo_tilt p) = Some (of_int c2)" "0 \<le> c2"
    and ts: "0 < step (limits_of Tilt p)" "0 \<le> sleep (limits_of Tilt p)"
      "step (limits_of Tilt p) dvd
         clamp ct (min_pos (limits_of Tilt p)) (max_pos (limits_of Tilt p)) - c2"
  shows "fst (move_location x p) = Inr Returned_None"
    and "angle (servo_pan (snd (move_location x p)))
           = Some (of_int (clamp cp (min_pos (limits_of Pan p)) (max_pos (limits_of Pan p))))"
    and "angle (servo_tilt (snd (move_location x p)))
           = Some (of_int (clamp ct (min_pos (limits_of Tilt p)) (max_pos (limits_of Tilt p))))"
proof -
  let ?wp = "clamp cp (min_pos (limits_of Pan p)) (max_pos (limits_of Pan p))"
  let ?wt = "clamp ct (min_pos (limits_of Tilt p)) (max_pos (limits_of Tilt p))"
  let ?m1 = "move_servo Pan (step (limits_of Pan p)) (sleep (limits_of Pan p)) ?wp p"
  let ?m2 = "move_servo Tilt (step (limits_of Tilt p)) (sleep (limits_of Tilt p)) ?wt (snd ?m1)"
  have a1: "angle (servo_of Pan p) = Some (of_int c1)" using pa(1) by (simp add: servo_of_def)
  note r1 = move_servo_reaches[OF a1 pa(2) ps]
  have a2: "angle (servo_of Tilt (snd ?m1)) = Some (of_int c2)"
    using ta(1) by (simp add: servo_of_def)
  note r2 = move_servo_reaches[OF a2 ta(2) ts]
  have m1: "?m1 = (Inr (), snd ?m1)" using r1(1) by (metis prod.collapse)
  have m2: "?m2 = (Inr (), snd ?m2)" using r2(1) by (metis prod.collapse)
  have eq: "move_location x p = (Inr Returned_None, snd ?m2)"
    by (subst move_location_found[OF loc], subst m1, simp, subst m2, simp)
  show "fst (move_location x p) = Inr Returned_None" by (simp add: eq)
  show "angle (servo_pan (snd (move_location x p))) = Some (of_int ?wp)"
    using r1(2) by (simp add: eq servo_of_def)
  show "angle (servo_tilt (snd (move_location x p))) = Some (of_int ?wt)"
    using r2(2) by (simp add: eq servo_of_def)
qed


text \<open>
  What holds of a save followed by a move. \<open>save_location x\<close> stores the rounded
  angles that the two servos report, unclamped. Let the process then change in any way
  that keeps the entry \<open>x\<close> (the limits may change). \<open>move_location x\<close> then runs
  \<open>move_servo\<close> on pan and, if that returns, on tilt, each with the stored angle
  clamped against the limits of the process at the time of the move as its target;
  every write to the pan servo precedes every write to the tilt servo; and when each
  servo reports a non-negative whole angle whose distance to its target is a multiple
  of the (positive) step, and the delays are not negative, both servos end on these
  clamped angles.
\<close>

lemma location_round_trip:
  assumes save: "save_location x p = (Inr STATUS_GOOD, p1)"
    and same: "locations (state p2) x = locations (state p1) x"
  shows "\<exists>cp ct.
      angle (servo_pan p) \<noteq> None \<and> angle (servo_tilt p) \<noteq> None
    \<and> (\<forall>a. angle (servo_pan p) = Some a \<longrightarrow> cp = py_round a)
    \<and> (\<forall>b. angle (servo_tilt p) = Some b \<longrightarrow> ct = py_round b)
    \<and> get_current_pan_position p = Inr cp \<and> get_current_tilt_position p = Inr ct
    \<and> locations (state p1) x = Some \<lparr>loc_pan = cp, loc_tilt = ct\<rparr>
    \<and> move_location x p2 =
        (case move_servo Pan (step (limits_of Pan p2)) (sleep (limits_of Pan p2))
                (clamp cp (min_pos (limits_of Pan p2)) (max_pos (limits_of Pan p2))) p2 of
           (Inl e, q) \<Rightarrow> (Inl e, q)
         | (Inr u, q) \<Rightarrow>
             (case move_servo Tilt (step (limits_of Tilt p2)) (sleep (limits_of Tilt p2))
                     (clamp ct (min_pos (limits_of Tilt p2)) (max_pos (limits_of Tilt p2))) q of
                (Inl e, q') \<Rightarrow> (Inl e, q')
              | (Inr u, q') \<Rightarrow> (Inr Returned_None, q')))
    \<and> (\<exists>xs ys. emitted (snd (move_location x p2))
                  = emitted p2 @ map (Pair Pan) xs @ map (Pair Tilt) ys)
    \<and> (\<forall>c1 c2.
          angle (servo_pan p2) = Some (of_int c1) \<and> 0 \<le> c1
        \<and> 0 < step (limits_of Pan p2) \<and> 0 \<le> sleep (limits_of Pan p2)
        \<and> step (limits_of Pan p2) dvd
             clamp cp (min_pos (limits_of Pan p2)) (max_pos (limits_of Pan p2)) - c1
        \<and> angle (servo_tilt p2) = Some (of_int c2) \<and> 0 \<le> c2
        \<and> 0 < step (limits_of Tilt p2) \<and> 0 \<le> sleep (limits_of Tilt p2)
        \<and> step (limits_of Tilt p2) dvd
             clamp ct (min_pos (limits_of Tilt p2)) (max_pos (limits_of Tilt p2)) - c2
        \<longrightarrow> fst (move_location x p2) = Inr Returned_None
          \<and> angle (servo_pan (snd (move_location x p2)))
              = Some (of_int (clamp cp (min_pos (limits_of Pan p2)) (max_pos (limits_of Pan p2))))
          \<and> angle (servo_tilt (snd (move_location x p2)))
              = Some (of_int (clamp ct (min_pos (limits_of Tilt p2))
                                 (max_pos (limits_of Tilt p2)))))"
proof -
  from save_location_result[OF save] obtain cp ct where
    cur: "get_current_pan_position p = Inr cp" "get_current_tilt_position p = Inr ct"
    and loc1: "locations (state p1) x = Some \<lparr>loc_pan = cp, loc_tilt = ct\<rparr>"
    by blast
  from same loc1 have loc2: "locations (state p2) x = Some \<lparr>loc_pan = cp, loc_tilt = ct\<rparr>"
    by simp
  note found = move_location_found[OF loc2]
  note em = move_location_emitted[of x p2]
  have arr: "fst (move_location x p2) = Inr Returned_None
          \<and> angle (servo_pan (snd (move_location x p2)))
              = Some (of_int (clamp cp (min_pos (limits_of Pan p2)) (max_pos (limits_of Pan p2))))
          \<and> angle (servo_tilt (snd (move_location x p2)))
              = Some (of_int (clamp ct (min_pos (limits_of Tilt p2))
                                 (max_pos (limits_of Tilt p2))))"
    if "angle (servo_pan p2) = Some (of_int c1) \<and> 0 \<le> c1
        \<and> 0 < step (limits_of Pan p2) \<and> 0 \<le> sleep (limits_of Pan p2)
        \<and> step (limits_of Pan p2) dvd
             clamp cp (min_pos (limits_of Pan p2)) (max_pos (limits_of Pan p2)) - c1
        \<and> angle (servo_tilt p2) = Some (of_int c2) \<and> 0 \<le> c2
        \<and> 0 < step (limits_of Tilt p2) \<and> 0 \<le> sleep (limits_of Tilt p2)
        \<and> step (limits_of Tilt p2) dvd
             clamp ct (min_pos (limits_of Tilt p2)) (max_pos (limits_of Tilt p2)) - c2"
    for c1 c2
    using move_location_arrives[OF loc2, of c1 c2] that by blast
  have tie: "angle (servo_pan p) \<noteq> None" "angle (servo_tilt p) \<noteq> None"
    "\<forall>a. angle (servo_pan p) = Some a \<longrightarrow> cp = py_round a"
    "\<forall>b. angle (servo_tilt p) = Some b \<longrightarrow> ct = py_round b"
    using cur
    by (auto simp: get_current_pan_position_def get_current_tilt_position_def
          get_angle_as_int_def split: option.splits)
  show ?thesis
    apply (rule exI[of _ cp], rule exI[of _ ct])
    apply (intro conjI)
             apply (rule tie(1))
            apply (rule tie(2))
           apply (rule tie(3))
          apply (rule tie(4))
         apply (rule cur(1))
        apply (rule cur(2))
       apply (rule loc1)
      apply (rule found)
     apply (rule em)
    apply (intro allI impI)
    apply (erule arr)
    done
qed

text \<open>
  Claim C4 says that \<open>SaveLocation(x)\<close> followed by \<open>MoveToLocation(x)\<close> moves pan and
  then tilt to the saved angles clamped against the limits in force at the time of the
  move. With step 2 and the servos at 55 and 45, \<open>save_location\<close> stores 55 and 45;
  the pan maximum is then set to 50. \<open>move_location\<close> takes the target 50 for pan,
  from the new limits, but its loop runs over \<open>range(55, 49, -2)\<close> and writes 55, 53,
  51: it returns normally with the pan servo at 51, above the maximum and not at the
  clamped angle 50.
\<close>

theorem C4_move_location_stops_short:
  "locations (state (snd (save_location ''x'' (process0 2 0 (Some 55) (Some 45))))) ''x''
     = Some \<lparr>loc_pan = 55, loc_tilt = 45\<rparr>
   \<and> max_pos (pos_pan (position (state
        (snd (pan_max (Some 50) (snd (save_location ''x'' (process0 2 0 (Some 55) (Some 45))))))))) = 50
   \<and> clamp 55 0 50 = 50
   \<and> fst (move_location ''x''
        (snd (pan_max (Some 50) (snd (save_location ''x'' (process0 2 0 (Some 55) (Some 45)))))))
       = Inr Returned_None
   \<and> emitted (snd (move_location ''x''
        (snd (pan_max (Some 50) (snd (save_location ''x'' (process0 2 0 (Some 55) (Some 45))))))))
       = [(Pan, 55), (Pan, 53), (Pan, 51), (Tilt, 45)]
   \<and> angle (servo_pan (snd (move_location ''x''
        (snd (pan_max (Some 50) (snd (save_location ''x'' (process0 2 0 (Some 55) (Some 45)))))))))
       = Some 51"
  by (simp add: eval_api save_location_def move_location_def)

section \<open>Setting the limits\<close>

text \<open>
  A supplied non-zero number is stored as the limit; with no request body the rounded
  current angle of the axis is stored.
\<close>

lemma set_limit_supplied:
  assumes "v \<noteq> 0"
  shows "max_pos (pos_pan (position (state (snd (pan_max (Some v) p))))) = v"
    and "min_pos (pos_pan (position (state (snd (pan_min (Some v) p))))) = v"
    and "max_pos (pos_tilt (position (state (snd (tilt_max (Some v) p))))) = v"
    and "min_pos (pos_tilt (position (state (snd (tilt_min (Some v) p))))) = v"
  using assms
  by (simp_all add: pan_max_def pan_min_def tilt_max_def tilt_min_def truthy_def
        upd_pan_def upd_tilt_def save_state_and_update_ha_def save_state_def)

lemma set_limit_absent:
  assumes "angle (servo_pan p) = Some a" and "angle (servo_tilt p) = Some b"
  shows "max_pos (pos_pan (position (state (snd (pan_max None p))))) = py_round a"
    and "min_pos (pos_pan (position (state (snd (pan_min None p))))) = py_round a"
    and "max_pos (pos_tilt (position (state (snd (tilt_max None p))))) = py_round b"
    and "min_pos (pos_tilt (position (state (snd (tilt_min None p))))) = py_round b"
  using assms
  by (simp_all add: pan_max_def pan_min_def tilt_max_def tilt_min_def truthy_def
        upd_pan_def upd_tilt_def save_state_and_update_ha_def save_state_def
        get_current_pan_position_def get_current_tilt_position_def get_angle_as_int_def)

text \<open>
  Claim C7 says that a supplied value is stored exactly, the value 0 included. The
  handlers test \<open>value and value.value\<close>, and 0 is false in Python: a supplied 0
  takes the branch for an absent body and the current angle is stored. Here the pan
  servo is at 60 and the tilt servo at 45, and the minimum was 5 before 0 is sent.
\<close>

theorem C7_zero_is_taken_as_absent:
  "min_pos (pos_pan (position (state
       (snd (pan_min (Some 0) (snd (pan_min (Some 5) (process0 2 0 (Some 60) (Some 45))))))))) = 60
   \<and> max_pos (pos_pan (position (state
       (snd (pan_max (Some 0) (process0 2 0 (Some 60) (Some 45))))))) = 60
   \<and> min_pos (pos_tilt (position (state
       (snd (tilt_min (Some 0) (snd (tilt_min (Some 5) (process0 2 0 (Some 60) (Some 45))))))))) = 45
   \<and> max_pos (pos_tilt (position (state
       (snd (tilt_max (Some 0) (process0 2 0 (Some 60) (Some 45))))))) = 45"
  by (simp add: eval_api)

section \<open>Relative nudges\<close>

text \<open>
  When the step divides 2, a nudge by \<open>+2\<close> followed by a nudge by \<open>-2\<close>, from a
  non-negative whole angle \<open>a\<close> with \<open>min \<le> a\<close> and \<open>a + 2 \<le> max\<close>, returns
  \<open>a + 2\<close> and then \<open>a\<close> and leaves the servo at \<open>a\<close>.
\<close>

lemma move_axis_fst:
  assumes "angle (servo_of ax p) = Some a" "step (limits_of ax p) \<noteq> 0"
    "0 \<le> sleep (limits_of ax p)"
  shows "fst (move_axis ax i relative p) =
     Inr (clamp (i + (if relative then py_round a else 0))
           (min_pos (limits_of ax p)) (max_pos (limits_of ax p)))"
proof (cases ax)
  case Pan
  with assms pan_returns[of p a i relative] show ?thesis
    by (simp add: move_axis_def limits_of_def servo_of_def)
next
  case Tilt
  with assms tilt_returns[of p a i relative] show ?thesis
    by (simp add: move_axis_def limits_of_def servo_of_def)
qed

lemma limits_of_move_axis [simp]:
  "limits_of ax' (snd (move_axis ax i relative p)) = limits_of ax' p"
  by (cases ax') (simp_all add: limits_of_def move_axis_state)

lemma py_round_of_int_add [simp]: "py_round (of_int a + numeral n) = a + numeral n"
  using py_round_of_int[of "a + numeral n"] by simp

lemma nudge_round_trip:
  assumes a: "angle (servo_of ax p) = Some (of_int a)" and a0: "0 \<le> a"
    and lo: "min_pos (limits_of ax p) \<le> a" and hi: "a + 2 \<le> max_pos (limits_of ax p)"
    and stp: "0 < step (limits_of ax p)" "step (limits_of ax p) dvd 2"
    and sl: "0 \<le> sleep (limits_of ax p)"
  shows "fst (move_axis ax 2 True p) = Inr (a + 2)"
    and "angle (servo_of ax (snd (move_axis ax 2 True p))) = Some (of_int (a + 2))"
    and "fst (move_axis ax (- 2) True (snd (move_axis ax 2 True p))) = Inr a"
    and "angle (servo_of ax (snd (move_axis ax (- 2) True (snd (move_axis ax 2 True p)))))
           = Some (of_int a)"
proof -
  let ?L = "limits_of ax p"
  let ?p1 = "snd (move_axis ax 2 True p)"
  from stp have nz: "step ?L \<noteq> 0" by simp
  have w1: "clamp (2 + a) (min_pos ?L) (max_pos ?L) = a + 2"
    using lo hi by (simp add: clamp_def)
  have w2: "clamp a (min_pos ?L) (max_pos ?L) = a"
    using lo hi by (simp add: clamp_def)
  show f1: "fst (move_axis ax 2 True p) = Inr (a + 2)"
    using move_axis_fst[OF a nz sl, of 2 True] by (simp add: w1)
  have d1: "step ?L dvd (a + 2) - a" using stp(2) by simp
  have s1: "?p1 = snd (move_servo ax (step ?L) (sleep ?L) (a + 2) p)"
    using a by (simp add: move_axis_snd w1)
  show a1: "angle (servo_of ax ?p1) = Some (of_int (a + 2))"
    unfolding s1 by (rule move_servo_reaches(2)[OF a a0 stp(1) sl d1])
  have a1': "angle (servo_of ax ?p1) = Some (real_of_int (a + 2))" using a1 .
  have nz1: "step (limits_of ax ?p1) \<noteq> 0" and sl1: "0 \<le> sleep (limits_of ax ?p1)"
    and st1: "0 < step (limits_of ax ?p1)"
    using nz sl stp(1) by simp_all
  show "fst (move_axis ax (- 2) True ?p1) = Inr a"
    using move_axis_fst[OF a1' nz1 sl1, of "- 2" True] by (simp add: w2)
  have d2: "step (limits_of ax ?p1) dvd a - (a + 2)" using stp(2) by simp
  have a2: "0 \<le> a + 2" using a0 by simp
  have s2: "snd (move_axis ax (- 2) True ?p1)
      = snd (move_servo ax (step (limits_of ax ?p1)) (sleep (limits_of ax ?p1)) a ?p1)"
    using move_axis_snd[of ax "- 2" True ?p1] a1' w2 by simp
  show "angle (servo_of ax (snd (move_axis ax (- 2) True ?p1))) = Some (of_int a)"
    unfolding s2 by (rule move_servo_reaches(2)[OF a1' a2 st1 sl1 d2])
qed

text \<open>
  Claim C8 says that \<open>MoveLeft\<close> then \<open>MoveRight\<close> (and \<open>MoveDown\<close> then
  \<open>MoveUp\<close>) return to the original angle \<open>a\<close>, the second call returning \<open>a\<close>,
  for every \<open>a\<close> with \<open>min \<le> a\<close>, \<open>a + 2 \<le> max\<close> and \<open>a \<ge> 0\<close>. With step 3 the
  loop of the first nudge runs over \<open>range(a, a + 3, 3)\<close> and writes \<open>a\<close> only, so the
  servo stays where it was, and the second nudge returns \<open>a - 2\<close>.
\<close>

theorem C8_nudges_with_step_three:
  "fst (move_left (process0 3 0 (Some 10) (Some 45))) = Inr 12
   \<and> angle (servo_pan (snd (move_left (process0 3 0 (Some 10) (Some 45))))) = Some 10
   \<and> fst (move_right (snd (move_left (process0 3 0 (Some 10) (Some 45))))) = Inr 8
   \<and> fst (move_down (process0 3 0 (Some 10) (Some 45))) = Inr 47
   \<and> angle (servo_tilt (snd (move_down (process0 3 0 (Some 10) (Some 45))))) = Some 45
   \<and> fst (move_up (snd (move_down (process0 3 0 (Some 10) (Some 45))))) = Inr 43"
  by (simp add: eval_defs move_left_def move_right_def move_down_def move_up_def)

end
